theory Spec2Isabelle
  imports Main
begin

section \<open>Data model\<close>

text \<open>
  The entities of \<^verbatim>\<open>api/models\<close> as the three source files read and build them. A
  TypeScript \<^verbatim>\<open>T | undefined\<close> is an \<open>option\<close>, an array is a list, a string is a
  \<open>string\<close>, and a \<^verbatim>\<open>Date\<close> is its time value in milliseconds.
\<close>

type_synonym Date = int

text \<open>
  Modelled from the spec: the enum \<^verbatim>\<open>Progression\<close> is declared in \<^verbatim>\<open>api/models\<close>,
  which is not among the sources. The source names only the member \<^verbatim>\<open>Nomination\<close>; the
  spec describes an ordered enum whose first stage is Nomination, followed by later
  stages. The later stages are numbered.
\<close>

datatype Progression = Nomination | LaterStage nat

text \<open>
  Modelled from the spec: the enum \<^verbatim>\<open>Role\<close> is declared in \<^verbatim>\<open>api/models\<close>. The source
  comments and the spec name the members Facilitator and OrganizationLead; every other
  member is kept by its name.
\<close>

datatype Role = Facilitator | OrganizationLead | OtherRole string

text \<open>
  Modelled from the spec: \<^verbatim>\<open>Organization\<close> and \<^verbatim>\<open>Barrier\<close> are enums of \<^verbatim>\<open>api/models\<close>
  whose members no source file names; a member is kept by its name.
\<close>

datatype Organization = Organization string

datatype Barrier = Barrier string

text \<open>The members of \<^verbatim>\<open>Priority\<close> are the three the priority selector lists.\<close>

datatype Priority = High | Medium | Low

record Participant =
  id_Participant :: string
  azureUniqueId :: string
  role :: Role
  organization :: Organization

record Evaluation =
  id_Evaluation :: string
  name :: string
  progression :: Progression
  participants :: "Participant list"

record Question =
  id_Question :: string
  text_Question :: string
  supportNotes :: string
  barrier :: Barrier
  organization_Question :: Organization
  evaluation_Question :: Evaluation

text \<open>
  An \<^verbatim>\<open>ApolloError\<close> is an object of the query client; only its presence is inspected,
  its message is kept.
\<close>

datatype ApolloError = ApolloError string

section \<open>Role based access\<close>

text \<open>
  Modelled from the spec: \<^verbatim>\<open>participantCanProgressEvaluation\<close> is a function of
  \<^verbatim>\<open>utils/RoleBasedAccess\<close>, which is not among the sources. The spec and the comment
  above \<^verbatim>\<open>disableProgression\<close> say who can progress an evaluation past Nomination:
  Facilitators and OrganizationLeads.
\<close>

fun participantCanProgressEvaluation :: "Role \<Rightarrow> bool" where
  "participantCanProgressEvaluation Facilitator = True"
| "participantCanProgressEvaluation OrganizationLead = True"
| "participantCanProgressEvaluation (OtherRole r) = False"

text \<open>
  Modelled from the spec: \<^verbatim>\<open>participantCanAddParticipant\<close> is a function of
  \<^verbatim>\<open>utils/RoleBasedAccess\<close>, which is not among the sources. The spec and the comment
  above \<^verbatim>\<open>disableAddParticipant\<close> say who can add users: Facilitators and
  OrganizationLeads.
\<close>

fun participantCanAddParticipant :: "Role \<Rightarrow> bool" where
  "participantCanAddParticipant Facilitator = True"
| "participantCanAddParticipant OrganizationLead = True"
| "participantCanAddParticipant (OtherRole r) = False"

section \<open>Nomination view\<close>

text \<open>
  \<^verbatim>\<open>Array.prototype.find\<close> returns the first element that satisfies the predicate, or
  \<^verbatim>\<open>undefined\<close>: that is \<^const>\<open>List.find\<close>.
\<close>

definition disableProgression :: "Evaluation \<Rightarrow> string \<Rightarrow> bool" where
  "disableProgression evaluation azureUniqueId' =
     (if progression evaluation \<noteq> Nomination then True
      else
        (case List.find (\<lambda>p. azureUniqueId p = azureUniqueId') (participants evaluation) of
           None \<Rightarrow> True
         | Some loggedInUser \<Rightarrow> \<not> participantCanProgressEvaluation (role loggedInUser)))"

definition disableAddParticipant :: "Evaluation \<Rightarrow> string \<Rightarrow> bool" where
  "disableAddParticipant evaluation azureUniqueId' =
     (case List.find (\<lambda>p. azureUniqueId p = azureUniqueId') (participants evaluation) of
        None \<Rightarrow> True
      | Some loggedInUser \<Rightarrow> \<not> participantCanAddParticipant (role loggedInUser))"

text \<open>
  What \<^verbatim>\<open>NominationView\<close> returns. The loaded view is the title, the two buttons with
  their \<^verbatim>\<open>disabled\<close> attribute, the nomination table and the add-nominee dialog.
\<close>

record LoadedView =
  evaluation_title :: string
  finishNominationDisabled :: bool
  addPersonDisabled :: bool
  tableParticipants :: "Participant list"
  dialogOpen :: bool
  currentNominees :: "Participant list"

datatype View =
    LoadingPlaceholder
  | ErrorTextArea string
  | Loaded LoadedView

text \<open>What the two hooks hand to the view in one render.\<close>

record CreateParticipantMutationProps =
  loading_Mutation :: bool
  participant_Mutation :: "Participant option"
  error_Mutation :: "ApolloError option"

record ParticipantQueryProps =
  loading_Query :: bool
  participants_Query :: "Participant list option"
  error_Query :: "ApolloError option"

text \<open>
  One render of \<^verbatim>\<open>NominationView\<close>. \<^verbatim>\<open>apiErrorMessage\<close> is a function of \<^verbatim>\<open>api/error\<close>,
  which is not among the sources: it is a parameter. The other parameters are the
  props, the component's \<^verbatim>\<open>panelOpen\<close> state and what the hooks returned.
\<close>

definition NominationView ::
  "(string \<Rightarrow> string) \<Rightarrow> Evaluation \<Rightarrow> bool \<Rightarrow> CreateParticipantMutationProps \<Rightarrow>
   ParticipantQueryProps \<Rightarrow> string \<Rightarrow> View" where
  "NominationView apiErrorMessage evaluation panelOpen mutation query azureUniqueId' =
     (if loading_Query query then LoadingPlaceholder
      else if error_Mutation mutation \<noteq> None then
        ErrorTextArea (apiErrorMessage ''Could not add participant'')
      else if error_Query query \<noteq> None \<or> participants_Query query = None then
        ErrorTextArea (apiErrorMessage ''Could not load participants'')
      else
        Loaded \<lparr> evaluation_title = name evaluation,
                 finishNominationDisabled = disableProgression evaluation azureUniqueId',
                 addPersonDisabled = disableAddParticipant evaluation azureUniqueId',
                 tableParticipants = the (participants_Query query),
                 dialogOpen = panelOpen,
                 currentNominees = the (participants_Query query) \<rparr>)"

section \<open>Field validators\<close>

text \<open>
  The \<^verbatim>\<open>length\<close> of a string counts its code units, here its characters: it is
  positive exactly when the string is not the empty one.
\<close>

definition checkIfTitleValid :: "string \<Rightarrow> bool" where
  "checkIfTitleValid title = (length title > 0)"

definition checkIfParticipantValid :: "Participant option \<Rightarrow> bool" where
  "checkIfParticipantValid participant = (participant \<noteq> None)"

section \<open>Action creation form\<close>

text \<open>
  \<^verbatim>\<open>Validity\<close> is the text field variant without \<^verbatim>\<open>undefined\<close> and \<^verbatim>\<open>"warning"\<close>:
  the three strings \<^verbatim>\<open>"default"\<close>, \<^verbatim>\<open>"error"\<close> and \<^verbatim>\<open>"success"\<close>.
\<close>

datatype Validity = Default | Error | Success

text \<open>
  Modelled from the spec: the element type of an action's \<^verbatim>\<open>notes\<close> is declared in
  \<^verbatim>\<open>api/models\<close>; the form only ever builds the empty list of them.
\<close>

datatype Note = Note string

record Action =
  id_Action :: string
  title :: string
  assignedTo :: "Participant option"
  description :: string
  priority :: Priority
  dueDate :: Date
  onHold :: bool
  createDate :: Date
  notes_Action :: "Note list"
  question :: Question

record PersonDetails =
  name_PersonDetails :: string
  azureUniqueId_PersonDetails :: string

text \<open>The props of \<^verbatim>\<open>ActionCreateForm\<close> that are data; the two callbacks are outputs.\<close>

record Props =
  connectedQuestion :: Question
  possibleAssignees :: "Participant list"
  possibleAssigneesDetails :: "PersonDetails list"

text \<open>The seven \<^verbatim>\<open>useState\<close> cells of the component.\<close>

record FormState =
  title :: string
  titleValidity :: Validity
  assignedToId :: "string option"
  assignedToValidity :: Validity
  dueDate :: Date
  priority :: Priority
  description :: string

text \<open>
  The state at mount; \<open>now\<close> is what \<^verbatim>\<open>new Date()\<close> gives at that moment.
\<close>

definition initialState :: "Date \<Rightarrow> FormState" where
  "initialState now =
     \<lparr> title = [], titleValidity = Default, assignedToId = None,
       assignedToValidity = Default, dueDate = now, priority = High,
       description = [] \<rparr>"

text \<open>
  \<^verbatim>\<open>assignedTo\<close> is computed in every render: the first possible assignee whose
  \<^verbatim>\<open>azureUniqueId\<close> is strictly equal to \<^verbatim>\<open>assignedToId\<close>. No string is strictly equal to
  \<^verbatim>\<open>undefined\<close>.
\<close>

definition assignedTo_Form :: "Props \<Rightarrow> FormState \<Rightarrow> Participant option" where
  "assignedTo_Form props st =
     List.find (\<lambda>a. Some (azureUniqueId a) = assignedToId st) (possibleAssignees props)"

record SearchableDropdownOption =
  title_Option :: string
  key_Option :: string
  isSelected :: bool

definition assigneesOptions :: "Props \<Rightarrow> FormState \<Rightarrow> SearchableDropdownOption list" where
  "assigneesOptions props st =
     map (\<lambda>personDetails.
            \<lparr> title_Option = name_PersonDetails personDetails,
              key_Option = azureUniqueId_PersonDetails personDetails,
              isSelected = (Some (azureUniqueId_PersonDetails personDetails) = assignedToId st) \<rparr>)
         (possibleAssigneesDetails props)"

text \<open>The bodies of the two effects, as functions of the rendered state.\<close>

definition titleValidity_effect :: "FormState \<Rightarrow> FormState" where
  "titleValidity_effect st =
     (if titleValidity st = Error then
        (if checkIfTitleValid (FormState.title st) then st\<lparr>titleValidity := Success\<rparr> else st)
      else if titleValidity st = Success then
        (if \<not> checkIfTitleValid (FormState.title st) then st\<lparr>titleValidity := Error\<rparr> else st)
      else st)"

definition assignedToValidity_effect :: "Props \<Rightarrow> FormState \<Rightarrow> FormState" where
  "assignedToValidity_effect props st =
     (if assignedToValidity st = Error then
        (if checkIfParticipantValid (assignedTo_Form props st)
         then st\<lparr>assignedToValidity := Success\<rparr> else st)
      else if assignedToValidity st = Success then
        (if \<not> checkIfParticipantValid (assignedTo_Form props st)
         then st\<lparr>assignedToValidity := Error\<rparr> else st)
      else st)"

text \<open>
  The click handler of the Create button. It returns the state after its setters and
  the list of calls it makes to \<^verbatim>\<open>onActionCreate\<close>; \<open>now\<close> is \<^verbatim>\<open>new Date()\<close>.
\<close>

definition onLocalCreateClick :: "Props \<Rightarrow> Date \<Rightarrow> FormState \<Rightarrow> FormState \<times> Action list" where
  "onLocalCreateClick props now st =
     (let isTitleValid = checkIfTitleValid (FormState.title st);
          isParticipantValid = checkIfParticipantValid (assignedTo_Form props st)
      in if \<not> isTitleValid \<or> \<not> isParticipantValid then
           (let st1 = (if \<not> isTitleValid then st\<lparr>titleValidity := Error\<rparr> else st);
                st2 = (if \<not> isParticipantValid then st1\<lparr>assignedToValidity := Error\<rparr> else st1)
            in (st2, []))
         else
           (st, [\<lparr> id_Action = [],
                   title = FormState.title st,
                   assignedTo = assignedTo_Form props st,
                   description = FormState.description st,
                   priority = FormState.priority st,
                   dueDate = FormState.dueDate st,
                   onHold = False,
                   createDate = now,
                   notes_Action = [],
                   question = connectedQuestion props \<rparr>]))"

text \<open>
  What can happen to a mounted form: the user edits a control, clicks a button, or the
  parent renders the form with other props.
\<close>

datatype Event =
    TitleChange string
  | AssigneeSelect string
  | DueDateChange "Date option"
  | PrioritySelect Priority
  | DescriptionChange string
  | CreateClick
  | CancelClick
  | PropsChange Props

datatype Callback = OnActionCreate Action | OnCancelClick

text \<open>The handlers of the controls; \<open>now\<close> is \<^verbatim>\<open>new Date()\<close> at the event.\<close>

fun handle :: "Date \<Rightarrow> Event \<Rightarrow> Props \<times> FormState \<Rightarrow> (Props \<times> FormState) \<times> Callback list" where
  "handle now (TitleChange v) (props, st) = ((props, st\<lparr>FormState.title := v\<rparr>), [])"
| "handle now (AssigneeSelect k) (props, st) = ((props, st\<lparr>assignedToId := Some k\<rparr>), [])"
| "handle now (DueDateChange newDate) (props, st) =
     ((props, st\<lparr>FormState.dueDate := (case newDate of Some d \<Rightarrow> d | None \<Rightarrow> now)\<rparr>), [])"
| "handle now (PrioritySelect p) (props, st) = ((props, st\<lparr>FormState.priority := p\<rparr>), [])"
| "handle now (DescriptionChange v) (props, st) =
     ((props, st\<lparr>FormState.description := v\<rparr>), [])"
| "handle now CreateClick (props, st) =
     (case onLocalCreateClick props now st of
        (st', actions) \<Rightarrow> ((props, st'), map OnActionCreate actions))"
| "handle now CancelClick (props, st) = ((props, st), [OnCancelClick])"
| "handle now (PropsChange props') (props, st) = ((props', st), [])"

text \<open>
  After a render, an effect runs when one of its dependencies differs from the previous
  render: \<^verbatim>\<open>[title, titleValidity]\<close> for the first, \<^verbatim>\<open>[assignedTo]\<close> for the second.
  Both read the rendered state and set different cells. The strings are compared by
  value. \<^verbatim>\<open>assignedTo\<close> is an object and is compared by identity: two renders that
  resolve different participants have different objects, and \<open>newObject\<close> says that
  the render resolved an object other than the previous one although the two are equal
  field by field (the parent passed new objects, or the list holds two equal entries).
\<close>

definition runEffects ::
  "bool \<Rightarrow> Props \<times> FormState \<Rightarrow> Props \<times> FormState \<Rightarrow> FormState" where
  "runEffects newObject prev cur =
     (let st1 = (if FormState.title (snd cur) \<noteq> FormState.title (snd prev)
                    \<or> titleValidity (snd cur) \<noteq> titleValidity (snd prev)
                 then titleValidity_effect (snd cur) else snd cur)
      in if newObject
            \<or> assignedTo_Form (fst cur) (snd cur) \<noteq> assignedTo_Form (fst prev) (snd prev)
         then assignedToValidity_effect (fst cur) st1 else st1)"

text \<open>
  A state set by an effect causes another render, whose effects may run again, until a
  render sets nothing. The props and the selected id of these further renders are those
  of the render before, and so is the object resolved.
\<close>

function rerender ::
  "bool \<Rightarrow> Props \<times> FormState \<Rightarrow> Props \<times> FormState \<Rightarrow> FormState" where
  "rerender newObject prev cur =
     (let st' = runEffects newObject prev cur
      in if st' = snd cur then st' else rerender False cur (fst cur, st'))"
  by pat_completeness auto
termination
proof (relation
    "measure (\<lambda>(newObject, prev, cur). if runEffects newObject prev cur = snd cur then 0 else 1)",
    goal_cases)
  case 1
  show ?case by simp
next
  case (2 newObject prev cur st')
  have stable: "runEffects False cur (fst cur, runEffects newObject prev cur)
      = runEffects newObject prev cur"
    by (cases prev; cases cur)
       (auto simp: runEffects_def Let_def titleValidity_effect_def
          assignedToValidity_effect_def assignedTo_Form_def split: if_splits)
  with 2 show ?case by simp
qed

text \<open>
  One event: the handler, then the renders it causes. \<open>now\<close> and \<open>newObject\<close> are
  what the environment decides at the event.
\<close>

definition dispatch ::
  "Date \<Rightarrow> bool \<Rightarrow> Event \<Rightarrow> Props \<times> FormState \<Rightarrow> (Props \<times> FormState) \<times> Callback list" where
  "dispatch now newObject e c =
     (case handle now e c of (c', out) \<Rightarrow> ((fst c', rerender newObject c c'), out))"

text \<open>A run of events from a configuration, each with what the environment decides.\<close>

fun run :: "(Date \<times> bool \<times> Event) list \<Rightarrow> Props \<times> FormState \<Rightarrow> Props \<times> FormState" where
  "run [] c = c"
| "run ((now, newObject, e) # es) c = run es (fst (dispatch now newObject e c))"

text \<open>
  Whether some Create click of a run finds the title invalid, and whether some Create
  click finds no assignee resolved: the failed submits of each field.
\<close>

fun titleSubmitFailed :: "(Date \<times> bool \<times> Event) list \<Rightarrow> Props \<times> FormState \<Rightarrow> bool" where
  "titleSubmitFailed [] c = False"
| "titleSubmitFailed ((now, newObject, e) # es) c =
     ((e = CreateClick \<and> \<not> checkIfTitleValid (FormState.title (snd c)))
      \<or> titleSubmitFailed es (fst (dispatch now newObject e c)))"

fun assigneeSubmitFailed :: "(Date \<times> bool \<times> Event) list \<Rightarrow> Props \<times> FormState \<Rightarrow> bool" where
  "assigneeSubmitFailed [] c = False"
| "assigneeSubmitFailed ((now, newObject, e) # es) c =
     ((e = CreateClick \<and> \<not> checkIfParticipantValid (assignedTo_Form (fst c) (snd c)))
      \<or> assigneeSubmitFailed es (fst (dispatch now newObject e c)))"

section \<open>Question and answer form\<close>

text \<open>
  Modelled from the spec: \<^verbatim>\<open>Severity\<close> is an enum of \<^verbatim>\<open>api/models\<close> whose members no
  source file names; a member is kept by its name.
\<close>

datatype Severity = Severity string

text \<open>
  The form reads two fields of an \<^verbatim>\<open>Answer\<close>, \<^verbatim>\<open>severity\<close> and \<^verbatim>\<open>text\<close>. The other
  fields of the declaration in \<^verbatim>\<open>api/models\<close> are the extension part of the record, so
  that an answer with any further fields is a value of \<open>'a Answer_scheme\<close>.
\<close>

record Answer =
  severity :: Severity
  text_Answer :: string

text \<open>
  The two handlers the form passes to its sub-forms. Each returns the list of calls it
  makes to \<^verbatim>\<open>onAnswerChange\<close>; the object spread copies every field of \<^verbatim>\<open>answer\<close> and
  then sets one.
\<close>

definition onSeveritySelected :: "'a Answer_scheme \<Rightarrow> Severity \<Rightarrow> 'a Answer_scheme list" where
  "onSeveritySelected answer severity' = [answer\<lparr>severity := severity'\<rparr>]"

definition onMarkdownChange :: "'a Answer_scheme \<Rightarrow> string \<Rightarrow> 'a Answer_scheme list" where
  "onMarkdownChange answer text' = [answer\<lparr>text_Answer := text'\<rparr>]"

section \<open>Participant creation and the client cache\<close>

text \<open>
  The cache of the query client is a normalised store. The client is a library outside
  the repository; the operations the source calls, and what the client does by itself
  around them, are modelled by their effect on this store:
  \<^item> entities are kept by cache id;
  \<^item> the root query object has one field for every set of arguments
    \<^verbatim>\<open>participants(...)\<close> was queried with, here named by the evaluation id of the
    \<^verbatim>\<open>where\<close> clause, each holding a list of references to entities.
\<close>

datatype Reference = Reference string

record Cache =
  entities :: "string \<rightharpoonup> Participant"
  participants_Cache :: "(string \<times> Reference list) list"

text \<open>
  The cache id the client gives to an object of a result: its type name and its id. The
  type name is that of the fragment \<^verbatim>\<open>ParticipantFields\<close>.
\<close>

definition dataIdFromObject :: "Participant \<Rightarrow> string" where
  "dataIdFromObject data = ''Participant:'' @ id_Participant data"

text \<open>
  The client writes the result of a query or mutation into the store by itself, each
  object under its cache id.
\<close>

definition writeResult :: "Cache \<Rightarrow> Participant \<Rightarrow> Cache" where
  "writeResult cache data =
     cache\<lparr>entities := (entities cache)(dataIdFromObject data \<mapsto> data)\<rparr>"

text \<open>\<^verbatim>\<open>cache.writeFragment\<close> stores the data under the given id and returns a reference to it.\<close>

definition writeFragment :: "Cache \<Rightarrow> string \<Rightarrow> Participant \<Rightarrow> Cache \<times> Reference" where
  "writeFragment cache id' data = (cache\<lparr>entities := (entities cache)(id' \<mapsto> data)\<rparr>, Reference id')"

text \<open>
  \<^verbatim>\<open>cache.modify\<close> with a modifier for the field name \<^verbatim>\<open>participants\<close>, and no id: the
  client goes through the fields of the root query object and calls the modifier on each
  stored \<^verbatim>\<open>participants(...)\<close> field in turn; the modifier gets the field's value, may
  write to the cache, and its result becomes the field's value. With no such field
  stored the modifier is never called and the store stays as it is.
\<close>

fun modifyFields ::
  "(Cache \<Rightarrow> Reference list option \<Rightarrow> Cache \<times> Reference list) \<Rightarrow>
   (string \<times> Reference list) list \<Rightarrow> Cache \<Rightarrow> Cache \<times> (string \<times> Reference list) list" where
  "modifyFields modifier [] cache = (cache, [])"
| "modifyFields modifier ((args, value) # stored) cache =
     (case modifier cache (Some value) of
        (cache1, value') \<Rightarrow>
          (case modifyFields modifier stored cache1 of
             (cache2, stored') \<Rightarrow> (cache2, (args, value') # stored')))"

definition modify_participants ::
  "Cache \<Rightarrow> (Cache \<Rightarrow> Reference list option \<Rightarrow> Cache \<times> Reference list) \<Rightarrow> Cache" where
  "modify_participants cache modifier =
     (case modifyFields modifier (participants_Cache cache) cache of
        (cache', stored') \<Rightarrow> cache'\<lparr>participants_Cache := stored'\<rparr>)"

text \<open>
  The \<^verbatim>\<open>update\<close> option of the mutation hook, and the modifier it passes for
  \<^verbatim>\<open>participants\<close>, whose parameter has the default \<^verbatim>\<open>[]\<close> for an undefined value.
\<close>

definition participants_modifier ::
  "Participant \<Rightarrow> Cache \<Rightarrow> Reference list option \<Rightarrow> Cache \<times> Reference list" where
  "participants_modifier createParticipant cache existingParticipants =
     (case writeFragment cache (id_Participant createParticipant) createParticipant of
        (cache', newParticipantRef) \<Rightarrow>
          (cache', (case existingParticipants of None \<Rightarrow> [] | Some refs \<Rightarrow> refs)
                     @ [newParticipantRef]))"

definition update :: "Cache \<Rightarrow> Participant \<Rightarrow> Cache" where
  "update cache createParticipant =
     modify_participants cache (participants_modifier createParticipant)"

text \<open>
  The requests a component hands to the client: the participant query of an evaluation,
  and the creation mutation with its four variables.
\<close>

datatype Request =
    GET_PARTICIPANTS string
  | CREATE_PARTICIPANT string string Organization Role

text \<open>\<^verbatim>\<open>createParticipant\<close> of the hook, and \<^verbatim>\<open>onNomineeSelected\<close> of the view, which calls it.\<close>

definition createParticipant :: "string \<Rightarrow> string \<Rightarrow> Organization \<Rightarrow> Role \<Rightarrow> Request list" where
  "createParticipant azureUniqueId' evaluationId organization' role' =
     [CREATE_PARTICIPANT azureUniqueId' evaluationId organization' role']"

definition onNomineeSelected :: "Evaluation \<Rightarrow> string \<Rightarrow> Role \<Rightarrow> Organization \<Rightarrow> Request list" where
  "onNomineeSelected evaluation azureUniqueId' role' organization' =
     createParticipant azureUniqueId' (id_Evaluation evaluation) organization' role'"

text \<open>
  The participant list the query of an evaluation reads from the cache, which is the
  list the view renders: the entities the field's references point to. A reference to
  no entity is left out of the list. When the field is not stored the cache has no
  answer.
\<close>

definition readParticipants :: "Cache \<Rightarrow> string \<Rightarrow> Participant list option" where
  "readParticipants cache evaluationId =
     (case map_of (participants_Cache cache) evaluationId of
        None \<Rightarrow> None
      | Some refs \<Rightarrow>
          Some (List.map_filter (\<lambda>r. case r of Reference k \<Rightarrow> entities cache k) refs))"

text \<open>
  The options object given to \<^verbatim>\<open>useMutation\<close>; the source's object has the single key
  \<^verbatim>\<open>update\<close>.
\<close>

record MutationOptions =
  update_Option :: "(Cache \<Rightarrow> Participant \<Rightarrow> Cache) option"
  refetchQueries :: "Request list"

definition createParticipantOptions :: MutationOptions where
  "createParticipantOptions = \<lparr> update_Option = Some update, refetchQueries = [] \<rparr>"

text \<open>
  What the client does when the mutation has succeeded, while the view of the evaluation
  \<open>evaluationId\<close> watches its participant query: it writes the result into the store,
  runs the \<^verbatim>\<open>update\<close> option, sends the queries listed under \<^verbatim>\<open>refetchQueries\<close>, and
  reads the watched query again from the cache, which goes to the network only when the
  cache has no answer (the query's fetch policy is the default, cache first). The result
  is the cache and the requests sent.
\<close>

definition mutationSucceeded ::
  "MutationOptions \<Rightarrow> string \<Rightarrow> Cache \<Rightarrow> Participant \<Rightarrow> Cache \<times> Request list" where
  "mutationSucceeded options evaluationId cache data =
     (let cache1 = writeResult cache data;
          cache2 = (case update_Option options of None \<Rightarrow> cache1 | Some u \<Rightarrow> u cache1 data)
      in (cache2,
          refetchQueries options @
          (case readParticipants cache2 evaluationId of
             None \<Rightarrow> [GET_PARTICIPANTS evaluationId]
           | Some ps \<Rightarrow> [])))"

section \<open>Example values\<close>

definition exampleLead :: Participant where
  "exampleLead = \<lparr> id_Participant = ''p1'', azureUniqueId = ''lead'',
                   role = OrganizationLead, organization = Organization ''ENGINEERING'' \<rparr>"

definition exampleMember :: Participant where
  "exampleMember = \<lparr> id_Participant = ''p2'', azureUniqueId = ''member'',
                     role = OtherRole ''PARTICIPANT'', organization = Organization ''SAFETY'' \<rparr>"

definition exampleEvaluation :: Evaluation where
  "exampleEvaluation = \<lparr> id_Evaluation = ''e1'', name = ''Review'', progression = Nomination,
                         participants = [exampleMember, exampleLead] \<rparr>"

definition exampleQuestion :: Question where
  "exampleQuestion = \<lparr> id_Question = ''q1'', text_Question = ''Is it safe?'',
                       supportNotes = ''Think'', barrier = Barrier ''GM'',
                       organization_Question = Organization ''SAFETY'',
                       evaluation_Question = exampleEvaluation \<rparr>"

definition exampleProps :: Props where
  "exampleProps = \<lparr> connectedQuestion = exampleQuestion,
                    possibleAssignees = [exampleMember, exampleLead],
                    possibleAssigneesDetails = [] \<rparr>"

definition exampleCache :: Cache where
  "exampleCache = \<lparr> entities = [''Participant:p2'' \<mapsto> exampleMember],
                    participants_Cache = [(''e1'', [Reference ''Participant:p2''])] \<rparr>"

definition exampleFilled :: FormState where
  "exampleFilled = \<lparr> title = ''Fix valve'', titleValidity = Default,
                     assignedToId = Some ''lead'', assignedToValidity = Default,
                     dueDate = 1700000000000, priority = Medium,
                     description = ''Replace the seal'' \<rparr>"

definition exampleOtherProps :: Props where
  "exampleOtherProps = exampleProps\<lparr>possibleAssignees := [exampleMember]\<rparr>"

definition exampleRun :: "(Date \<times> bool \<times> Event) list" where
  "exampleRun = [(1, False, TitleChange ''Fix''), (2, False, CreateClick),
                 (3, False, AssigneeSelect ''lead''), (4, False, TitleChange [])]"

definition exampleRun' :: "(Date \<times> bool \<times> Event) list" where
  "exampleRun' = [(1, False, AssigneeSelect ''lead''), (2, False, CreateClick),
                  (3, False, TitleChange ''Fix''), (4, True, PropsChange exampleOtherProps)]"

section \<open>Properties of the nomination view\<close>

lemma find_first_index:
  "(\<exists>p. List.find P xs = Some p \<and> Q p) \<longleftrightarrow>
   (\<exists>i<length xs. P (xs ! i) \<and> (\<forall>j<i. \<not> P (xs ! j)) \<and> Q (xs ! i))"
  by (auto simp: find_Some_iff)

lemma canProgress_roles:
  "participantCanProgressEvaluation r \<longleftrightarrow> r = Facilitator \<or> r = OrganizationLead"
  by (cases r) simp_all

lemma canAdd_roles:
  "participantCanAddParticipant r \<longleftrightarrow> r = Facilitator \<or> r = OrganizationLead"
  by (cases r) simp_all

text \<open>
  Claim C1. The Finish Nomination button is enabled exactly when the evaluation is at
  Nomination and the participant list has an entry for the current user whose role is
  Facilitator or OrganizationLead, the entry being the one the lookup finds: the first
  of the list with the user's \<^verbatim>\<open>azureUniqueId\<close>. In every other case it is disabled.
\<close>

theorem disableProgression_enabled_iff:
  "(\<not> disableProgression ev uid) \<longleftrightarrow>
   (progression ev = Nomination \<and>
    (\<exists>i<length (participants ev).
       azureUniqueId (participants ev ! i) = uid \<and>
       (\<forall>j<i. azureUniqueId (participants ev ! j) \<noteq> uid) \<and>
       (role (participants ev ! i) = Facilitator \<or>
        role (participants ev ! i) = OrganizationLead)))"
proof -
  let ?P = "\<lambda>p. azureUniqueId p = uid"
  let ?Q = "\<lambda>p. role p = Facilitator \<or> role p = OrganizationLead"
  have "(\<not> disableProgression ev uid) \<longleftrightarrow>
        (progression ev = Nomination \<and>
         (\<exists>p. List.find ?P (participants ev) = Some p \<and> ?Q p))"
    by (simp add: disableProgression_def canProgress_roles split: option.split)
  also have "(\<exists>p. List.find ?P (participants ev) = Some p \<and> ?Q p) \<longleftrightarrow>
      (\<exists>i<length (participants ev). ?P (participants ev ! i) \<and>
         (\<forall>j<i. \<not> ?P (participants ev ! j)) \<and> ?Q (participants ev ! i))"
    by (rule find_first_index)
  finally show ?thesis .
qed

theorem disableProgression_enabled_witness:
  "\<not> disableProgression exampleEvaluation ''lead'' \<and>
   disableProgression exampleEvaluation ''member''"
proof -
  have lead: "progression exampleEvaluation = Nomination \<and>
    (\<exists>i<length (participants exampleEvaluation).
       azureUniqueId (participants exampleEvaluation ! i) = ''lead'' \<and>
       (\<forall>j<i. azureUniqueId (participants exampleEvaluation ! j) \<noteq> ''lead'') \<and>
       (role (participants exampleEvaluation ! i) = Facilitator \<or>
        role (participants exampleEvaluation ! i) = OrganizationLead))"
    by (simp add: exampleEvaluation_def exampleLead_def exampleMember_def)
       (rule exI[of _ 1], simp)
  have member: "\<not> (progression exampleEvaluation = Nomination \<and>
    (\<exists>i<length (participants exampleEvaluation).
       azureUniqueId (participants exampleEvaluation ! i) = ''member'' \<and>
       (\<forall>j<i. azureUniqueId (participants exampleEvaluation ! j) \<noteq> ''member'') \<and>
       (role (participants exampleEvaluation ! i) = Facilitator \<or>
        role (participants exampleEvaluation ! i) = OrganizationLead)))"
    by (auto simp: exampleEvaluation_def exampleLead_def exampleMember_def less_Suc_eq)
  show ?thesis
    using lead member
      disableProgression_enabled_iff [of exampleEvaluation "''lead''"]
      disableProgression_enabled_iff [of exampleEvaluation "''member''"]
    by blast
qed

text \<open>
  Claim C5. Whatever the evaluation's progression is set to, the Add Person button is
  enabled exactly when the participant list has an entry for the current user whose
  role is Facilitator or OrganizationLead, the entry being the first of the list with
  the user's \<^verbatim>\<open>azureUniqueId\<close>. The right-hand side does not mention the progression.
\<close>

theorem disableAddParticipant_enabled_iff:
  "(\<not> disableAddParticipant (ev\<lparr>progression := stage\<rparr>) uid) \<longleftrightarrow>
   (\<exists>i<length (participants ev).
      azureUniqueId (participants ev ! i) = uid \<and>
      (\<forall>j<i. azureUniqueId (participants ev ! j) \<noteq> uid) \<and>
      (role (participants ev ! i) = Facilitator \<or>
       role (participants ev ! i) = OrganizationLead))"
proof -
  let ?P = "\<lambda>p. azureUniqueId p = uid"
  let ?Q = "\<lambda>p. role p = Facilitator \<or> role p = OrganizationLead"
  have "(\<not> disableAddParticipant (ev\<lparr>progression := stage\<rparr>) uid) \<longleftrightarrow>
        (\<exists>p. List.find ?P (participants ev) = Some p \<and> ?Q p)"
    by (simp add: disableAddParticipant_def canAdd_roles split: option.split)
  also have "\<dots> \<longleftrightarrow>
      (\<exists>i<length (participants ev). ?P (participants ev ! i) \<and>
         (\<forall>j<i. \<not> ?P (participants ev ! j)) \<and> ?Q (participants ev ! i))"
    by (rule find_first_index)
  finally show ?thesis .
qed

theorem disableAddParticipant_enabled_witness:
  "\<not> disableAddParticipant (exampleEvaluation\<lparr>progression := LaterStage 2\<rparr>) ''lead'' \<and>
   \<not> disableAddParticipant (exampleEvaluation\<lparr>progression := Nomination\<rparr>) ''lead''"
proof -
  have lead: "\<exists>i<length (participants exampleEvaluation).
       azureUniqueId (participants exampleEvaluation ! i) = ''lead'' \<and>
       (\<forall>j<i. azureUniqueId (participants exampleEvaluation ! j) \<noteq> ''lead'') \<and>
       (role (participants exampleEvaluation ! i) = Facilitator \<or>
        role (participants exampleEvaluation ! i) = OrganizationLead)"
    by (simp add: exampleEvaluation_def exampleLead_def exampleMember_def)
       (rule exI[of _ 1], simp)
  show ?thesis
    using lead
      disableAddParticipant_enabled_iff
        [where ev = exampleEvaluation and stage = "LaterStage 2" and uid = "''lead''"]
      disableAddParticipant_enabled_iff
        [where ev = exampleEvaluation and stage = Nomination and uid = "''lead''"]
    by blast
qed

text \<open>
  Claim C2, as stated, fails: while the participant query is loading, the view is the
  loading placeholder even when a creation error is present, so the mutation error is
  not checked first.
\<close>

theorem NominationView_loading_before_mutation_error:
  "NominationView id exampleEvaluation False
     \<lparr> loading_Mutation = False, participant_Mutation = None,
       error_Mutation = Some (ApolloError ''failed'') \<rparr>
     \<lparr> loading_Query = True, participants_Query = None, error_Query = None \<rparr>
     ''lead''
   = LoadingPlaceholder
   \<and> LoadingPlaceholder \<noteq> ErrorTextArea (id ''Could not add participant'')"
  by (simp add: NominationView_def)

text \<open>
  Claim C2, amended. The branches are checked in this order: query loading, then the
  mutation error, then the query error or missing data, then the loaded view. When a
  creation error is present and the query is not loading, the view is the message
  "Could not add participant", whatever the query returned.
\<close>

theorem NominationView_branch_order:
  "(loading_Query q \<longrightarrow> NominationView msg ev po m q uid = LoadingPlaceholder) \<and>
   (\<not> loading_Query q \<and> error_Mutation m \<noteq> None \<longrightarrow>
      NominationView msg ev po m q uid = ErrorTextArea (msg ''Could not add participant'')) \<and>
   (\<not> loading_Query q \<and> error_Mutation m = None \<and>
    (error_Query q \<noteq> None \<or> participants_Query q = None) \<longrightarrow>
      NominationView msg ev po m q uid = ErrorTextArea (msg ''Could not load participants'')) \<and>
   (\<not> loading_Query q \<and> error_Mutation m = None \<and> error_Query q = None \<and>
    participants_Query q = Some ps \<longrightarrow>
      (\<exists>v. NominationView msg ev po m q uid = Loaded v \<and> tableParticipants v = ps \<and>
           currentNominees v = ps \<and>
           finishNominationDisabled v = disableProgression ev uid \<and>
           addPersonDisabled v = disableAddParticipant ev uid))"
  by (simp add: NominationView_def)

theorem NominationView_branch_order_witness:
  "NominationView id exampleEvaluation False
     \<lparr> loading_Mutation = False, participant_Mutation = None,
       error_Mutation = Some (ApolloError ''failed'') \<rparr>
     \<lparr> loading_Query = True, participants_Query = None, error_Query = None \<rparr> ''lead''
   = LoadingPlaceholder \<and>
   NominationView id exampleEvaluation False
     \<lparr> loading_Mutation = False, participant_Mutation = None,
       error_Mutation = Some (ApolloError ''failed'') \<rparr>
     \<lparr> loading_Query = False, participants_Query = None,
       error_Query = Some (ApolloError ''down'') \<rparr> ''lead''
   = ErrorTextArea ''Could not add participant'' \<and>
   NominationView id exampleEvaluation False
     \<lparr> loading_Mutation = False, participant_Mutation = None, error_Mutation = None \<rparr>
     \<lparr> loading_Query = False, participants_Query = None,
       error_Query = Some (ApolloError ''down'') \<rparr> ''lead''
   = ErrorTextArea ''Could not load participants'' \<and>
   (\<exists>v. NominationView id exampleEvaluation False
     \<lparr> loading_Mutation = False, participant_Mutation = None, error_Mutation = None \<rparr>
     \<lparr> loading_Query = False, participants_Query = Some [exampleLead],
       error_Query = None \<rparr> ''lead''
   = Loaded v \<and> tableParticipants v = [exampleLead])"
  using
    NominationView_branch_order [where msg = id and ev = exampleEvaluation
      and po = False and uid = "''lead''"
      and m = "\<lparr> loading_Mutation = False, participant_Mutation = None,
         error_Mutation = Some (ApolloError ''failed'') \<rparr>"
      and q = "\<lparr> loading_Query = True, participants_Query = None, error_Query = None \<rparr>"]
    NominationView_branch_order [where msg = id and ev = exampleEvaluation
      and po = False and uid = "''lead''"
      and m = "\<lparr> loading_Mutation = False, participant_Mutation = None,
         error_Mutation = Some (ApolloError ''failed'') \<rparr>"
      and q = "\<lparr> loading_Query = False, participants_Query = None,
         error_Query = Some (ApolloError ''down'') \<rparr>"]
    NominationView_branch_order [where msg = id and ev = exampleEvaluation
      and po = False and uid = "''lead''"
      and m = "\<lparr> loading_Mutation = False, participant_Mutation = None,
         error_Mutation = None \<rparr>"
      and q = "\<lparr> loading_Query = False, participants_Query = None,
         error_Query = Some (ApolloError ''down'') \<rparr>"]
    NominationView_branch_order [where msg = id and ev = exampleEvaluation
      and po = False and uid = "''lead''" and ps = "[exampleLead]"
      and m = "\<lparr> loading_Mutation = False, participant_Mutation = None,
         error_Mutation = None \<rparr>"
      and q = "\<lparr> loading_Query = False, participants_Query = Some [exampleLead],
         error_Query = None \<rparr>"]
  by auto

section \<open>Properties of the validators\<close>

text \<open>
  Claim C8. For every string, the title validator returns true exactly when the string
  has length greater than zero.
\<close>

theorem checkIfTitleValid_iff_length: "checkIfTitleValid s \<longleftrightarrow> length s > 0"
  by (simp add: checkIfTitleValid_def)


section \<open>Properties of the action creation form\<close>

text \<open>The renders after an event settle after one round of effects.\<close>

declare rerender.simps [simp del]

lemma runEffects_stable:
  "runEffects False cur (fst cur, runEffects newObject prev cur) = runEffects newObject prev cur"
  by (cases prev; cases cur)
     (auto simp: runEffects_def Let_def titleValidity_effect_def
        assignedToValidity_effect_def assignedTo_Form_def split: if_splits)

lemma rerender_runEffects: "rerender newObject prev cur = runEffects newObject prev cur"
proof -
  have "rerender False cur (fst cur, runEffects newObject prev cur)
      = runEffects newObject prev cur"
    by (subst rerender.simps) (simp add: Let_def runEffects_stable)
  then show ?thesis
    by (subst rerender.simps) (simp add: Let_def)
qed

lemmas form_defs = dispatch_def rerender_runEffects runEffects_def Let_def
  titleValidity_effect_def assignedToValidity_effect_def onLocalCreateClick_def
  checkIfTitleValid_def checkIfParticipantValid_def

text \<open>
  Claim C3. When the title is not empty and an assignee is resolved, a click on Create
  makes exactly one call to \<^verbatim>\<open>onActionCreate\<close>. The action it carries has the empty
  string as id, \<^verbatim>\<open>onHold\<close> false, no notes, and the form's current due date and
  priority (and its title and the resolved assignee).
\<close>

theorem onLocalCreateClick_valid:
  assumes "FormState.title st \<noteq> []" and "assignedTo_Form props st = Some p"
  shows "\<exists>a. snd (onLocalCreateClick props now st) = [a] \<and>
             snd (dispatch now newObject CreateClick (props, st)) = [OnActionCreate a] \<and>
             id_Action a = [] \<and> onHold a = False \<and> notes_Action a = [] \<and>
             Action.dueDate a = FormState.dueDate st \<and>
             Action.priority a = FormState.priority st \<and>
             Action.title a = FormState.title st \<and>
             Action.assignedTo a = Some p"
  using assms by (simp add: form_defs)

theorem onLocalCreateClick_valid_witness:
  "FormState.title exampleFilled \<noteq> [] \<and>
   assignedTo_Form exampleProps exampleFilled = Some exampleLead \<and>
   (\<exists>a. snd (onLocalCreateClick exampleProps 1700000000001 exampleFilled) = [a] \<and>
        id_Action a = [] \<and> onHold a = False \<and> notes_Action a = [] \<and>
        Action.dueDate a = 1700000000000 \<and> Action.priority a = Medium)"
proof -
  have t: "FormState.title exampleFilled \<noteq> []"
    by (simp add: exampleFilled_def)
  have p: "assignedTo_Form exampleProps exampleFilled = Some exampleLead"
    by (simp add: assignedTo_Form_def exampleProps_def exampleFilled_def exampleLead_def
        exampleMember_def)
  have d: "FormState.dueDate exampleFilled = 1700000000000"
    "FormState.priority exampleFilled = Medium"
    by (simp_all add: exampleFilled_def)
  show ?thesis
    using t p d onLocalCreateClick_valid [OF t p, of 1700000000001] by auto
qed

text \<open>
  Claim C4. When the title is empty or no assignee is resolved, a click on Create makes
  no call to \<^verbatim>\<open>onActionCreate\<close>, and the validity of each failing field is
  \<^verbatim>\<open>error\<close>, both when the handler returns and after the renders that follow.
\<close>

theorem onLocalCreateClick_invalid:
  assumes "FormState.title st = [] \<or> assignedTo_Form props st = None"
  shows "snd (onLocalCreateClick props now st) = [] \<and>
         snd (dispatch now newObject CreateClick (props, st)) = [] \<and>
         (FormState.title st = [] \<longrightarrow>
            titleValidity (fst (onLocalCreateClick props now st)) = Error \<and>
            titleValidity (snd (fst (dispatch now newObject CreateClick (props, st)))) = Error) \<and>
         (assignedTo_Form props st = None \<longrightarrow>
            assignedToValidity (fst (onLocalCreateClick props now st)) = Error \<and>
            assignedToValidity (snd (fst (dispatch now newObject CreateClick (props, st)))) = Error)"
  using assms by (auto simp: form_defs assignedTo_Form_def)

theorem onLocalCreateClick_invalid_witness:
  "FormState.title (initialState 0) = [] \<and>
   assignedTo_Form exampleProps (initialState 0) = None \<and>
   snd (onLocalCreateClick exampleProps 1 (initialState 0)) = [] \<and>
   titleValidity (fst (onLocalCreateClick exampleProps 1 (initialState 0))) = Error \<and>
   assignedToValidity (fst (onLocalCreateClick exampleProps 1 (initialState 0))) = Error \<and>
   assignedTo_Form exampleProps (exampleFilled\<lparr>FormState.title := []\<rparr>) \<noteq> None \<and>
   snd (onLocalCreateClick exampleProps 1 (exampleFilled\<lparr>FormState.title := []\<rparr>)) = [] \<and>
   titleValidity (fst (onLocalCreateClick exampleProps 1 (exampleFilled\<lparr>FormState.title := []\<rparr>)))
     = Error"
proof -
  have t: "FormState.title (initialState 0) = []"
    and t': "FormState.title (exampleFilled\<lparr>FormState.title := []\<rparr>) = []"
    by (simp_all add: initialState_def)
  have p: "assignedTo_Form exampleProps (initialState 0) = None"
    by (simp add: assignedTo_Form_def initialState_def exampleProps_def find_None_iff)
  have p': "assignedTo_Form exampleProps (exampleFilled\<lparr>FormState.title := []\<rparr>) \<noteq> None"
    by (simp add: assignedTo_Form_def exampleProps_def exampleFilled_def exampleLead_def
        exampleMember_def)
  show ?thesis
    using t t' p p'
      onLocalCreateClick_invalid [of "initialState 0" exampleProps 1]
      onLocalCreateClick_invalid [of "exampleFilled\<lparr>FormState.title := []\<rparr>" exampleProps 1]
    by simp
qed

lemma find_Some_in_set: "List.find P xs = Some p \<Longrightarrow> p \<in> set xs \<and> P p"
  by (induction xs) (auto split: if_splits)

lemma assignedTo_Form_Some:
  "assignedTo_Form props st = Some p \<Longrightarrow>
   p \<in> set (possibleAssignees props) \<and> Some (azureUniqueId p) = assignedToId st"
  unfolding assignedTo_Form_def by (rule find_Some_in_set)

lemma assignedTo_Form_None:
  "assignedTo_Form props st = None \<longleftrightarrow>
   (\<forall>p \<in> set (possibleAssignees props). Some (azureUniqueId p) \<noteq> assignedToId st)"
  unfolding assignedTo_Form_def by (auto simp: find_None_iff)

text \<open>
  Claim C10. The assignee of every action handed to \<^verbatim>\<open>onActionCreate\<close> is an element of
  \<^verbatim>\<open>possibleAssignees\<close> whose \<^verbatim>\<open>azureUniqueId\<close> is the selected id. When no element of
  \<^verbatim>\<open>possibleAssignees\<close> has the selected id, the assignee counts as unselected: no
  action is created and the assignee field's validity is \<^verbatim>\<open>error\<close>.
\<close>

theorem onLocalCreateClick_assignee_resolved:
  "(\<forall>a \<in> set (snd (onLocalCreateClick props now st)).
      \<exists>p \<in> set (possibleAssignees props).
        Action.assignedTo a = Some p \<and> Some (azureUniqueId p) = assignedToId st) \<and>
   ((\<forall>p \<in> set (possibleAssignees props). Some (azureUniqueId p) \<noteq> assignedToId st) \<longrightarrow>
      assignedTo_Form props st = None \<and>
      snd (onLocalCreateClick props now st) = [] \<and>
      snd (dispatch now newObject CreateClick (props, st)) = [] \<and>
      assignedToValidity (fst (onLocalCreateClick props now st)) = Error)"
proof (cases "assignedTo_Form props st")
  case None
  then show ?thesis
    by (simp add: form_defs assignedTo_Form_None)
next
  case (Some p)
  from assignedTo_Form_Some [OF Some] have "\<not> (\<forall>p \<in> set (possibleAssignees props).
      Some (azureUniqueId p) \<noteq> assignedToId st)"
    by blast
  moreover have "\<forall>a \<in> set (snd (onLocalCreateClick props now st)).
      Action.assignedTo a = Some p"
    using Some by (simp add: form_defs)
  ultimately show ?thesis
    using assignedTo_Form_Some [OF Some] by blast
qed

theorem onLocalCreateClick_assignee_resolved_witness:
  "map Action.assignedTo (snd (onLocalCreateClick exampleProps 7 exampleFilled))
     = [Some exampleLead] \<and>
   exampleLead \<in> set (possibleAssignees exampleProps) \<and>
   assignedTo_Form exampleOtherProps exampleFilled = None \<and>
   snd (onLocalCreateClick exampleOtherProps 7 exampleFilled) = [] \<and>
   assignedToValidity (fst (onLocalCreateClick exampleOtherProps 7 exampleFilled)) = Error"
proof -
  have absent: "\<forall>p \<in> set (possibleAssignees exampleOtherProps).
      Some (azureUniqueId p) \<noteq> assignedToId exampleFilled"
    by (simp add: exampleOtherProps_def exampleProps_def exampleFilled_def exampleMember_def)
  have present: "map Action.assignedTo (snd (onLocalCreateClick exampleProps 7 exampleFilled))
      = [Some exampleLead]"
    by (simp add: form_defs assignedTo_Form_def exampleProps_def exampleFilled_def
        exampleMember_def exampleLead_def)
  have listed: "exampleLead \<in> set (possibleAssignees exampleProps)"
    by (simp add: exampleProps_def)
  show ?thesis
    using absent present listed
      onLocalCreateClick_assignee_resolved [of exampleProps 7 exampleFilled]
      onLocalCreateClick_assignee_resolved [of exampleOtherProps 7 exampleFilled]
    by blast
qed

text \<open>What one event does to the validity of each field.\<close>

lemma dispatch_title_step:
  "titleValidity (snd (fst (dispatch now newObject e c))) = titleValidity (snd c) \<or>
   titleValidity (snd c) = Error \<and>
     titleValidity (snd (fst (dispatch now newObject e c))) = Success \<and>
     checkIfTitleValid (FormState.title (snd (fst (dispatch now newObject e c)))) \<or>
   titleValidity (snd c) = Success \<and>
     titleValidity (snd (fst (dispatch now newObject e c))) = Error \<and>
     \<not> checkIfTitleValid (FormState.title (snd (fst (dispatch now newObject e c)))) \<or>
   e = CreateClick \<and> \<not> checkIfTitleValid (FormState.title (snd c)) \<and>
     titleValidity (snd (fst (dispatch now newObject e c))) = Error"
  by (cases c; cases e) (auto simp: form_defs)

lemma dispatch_assignee_step:
  "assignedToValidity (snd (fst (dispatch now newObject e c))) = assignedToValidity (snd c) \<or>
   assignedToValidity (snd c) = Error \<and>
     assignedToValidity (snd (fst (dispatch now newObject e c))) = Success \<and>
     checkIfParticipantValid
       (assignedTo_Form (fst (fst (dispatch now newObject e c)))
          (snd (fst (dispatch now newObject e c)))) \<or>
   assignedToValidity (snd c) = Success \<and>
     assignedToValidity (snd (fst (dispatch now newObject e c))) = Error \<and>
     \<not> checkIfParticipantValid
       (assignedTo_Form (fst (fst (dispatch now newObject e c)))
          (snd (fst (dispatch now newObject e c)))) \<or>
   e = CreateClick \<and> \<not> checkIfParticipantValid (assignedTo_Form (fst c) (snd c)) \<and>
     assignedToValidity (snd (fst (dispatch now newObject e c))) = Error"
  by (cases c; cases e) (auto simp: form_defs assignedTo_Form_def)

lemma run_title_default:
  "titleValidity (snd c) = Default \<Longrightarrow> \<not> titleSubmitFailed es c \<Longrightarrow>
   titleValidity (snd (run es c)) = Default"
proof (induction es arbitrary: c)
  case Nil
  then show ?case by simp
next
  case (Cons x es)
  obtain now newObject e where x: "x = (now, newObject, e)" by (cases x)
  from Cons.prems x
  have "\<not> (e = CreateClick \<and> \<not> checkIfTitleValid (FormState.title (snd c)))"
    by simp
  with dispatch_title_step [of now newObject e c] Cons.prems(1)
  have "titleValidity (snd (fst (dispatch now newObject e c))) = Default"
    by auto
  with Cons x show ?case by simp
qed

lemma run_assignee_default:
  "assignedToValidity (snd c) = Default \<Longrightarrow> \<not> assigneeSubmitFailed es c \<Longrightarrow>
   assignedToValidity (snd (run es c)) = Default"
proof (induction es arbitrary: c)
  case Nil
  then show ?case by simp
next
  case (Cons x es)
  obtain now newObject e where x: "x = (now, newObject, e)" by (cases x)
  from Cons.prems x
  have "\<not> (e = CreateClick \<and> \<not> checkIfParticipantValid (assignedTo_Form (fst c) (snd c)))"
    by simp
  with dispatch_assignee_step [of now newObject e c] Cons.prems(1)
  have "assignedToValidity (snd (fst (dispatch now newObject e c))) = Default"
    by auto
  with Cons x show ?case by simp
qed

text \<open>
  Claim C7. For the title and for the assignee, each on its own, one event does one of
  four things to the field's validity: it leaves it as it is; it moves it from
  \<^verbatim>\<open>error\<close> to \<^verbatim>\<open>success\<close>, the field being valid now; it moves it from \<^verbatim>\<open>success\<close> to
  \<^verbatim>\<open>error\<close>, the field being invalid now; or the event is a click on Create that finds
  the field invalid, and the validity is \<^verbatim>\<open>error\<close>. So the validity leaves
  \<^verbatim>\<open>default\<close> only through a failed submit, and over any run of events a field that
  starts at \<^verbatim>\<open>default\<close> and is invalid at no click on Create is still at \<^verbatim>\<open>default\<close>
  at the end.
\<close>

theorem validity_state_machine:
  "(titleValidity (snd (fst (dispatch now newObject e c))) = titleValidity (snd c) \<or>
    titleValidity (snd c) = Error \<and>
      titleValidity (snd (fst (dispatch now newObject e c))) = Success \<and>
      checkIfTitleValid (FormState.title (snd (fst (dispatch now newObject e c)))) \<or>
    titleValidity (snd c) = Success \<and>
      titleValidity (snd (fst (dispatch now newObject e c))) = Error \<and>
      \<not> checkIfTitleValid (FormState.title (snd (fst (dispatch now newObject e c)))) \<or>
    e = CreateClick \<and> \<not> checkIfTitleValid (FormState.title (snd c)) \<and>
      titleValidity (snd (fst (dispatch now newObject e c))) = Error) \<and>
   (assignedToValidity (snd (fst (dispatch now newObject e c))) = assignedToValidity (snd c) \<or>
    assignedToValidity (snd c) = Error \<and>
      assignedToValidity (snd (fst (dispatch now newObject e c))) = Success \<and>
      checkIfParticipantValid
        (assignedTo_Form (fst (fst (dispatch now newObject e c)))
           (snd (fst (dispatch now newObject e c)))) \<or>
    assignedToValidity (snd c) = Success \<and>
      assignedToValidity (snd (fst (dispatch now newObject e c))) = Error \<and>
      \<not> checkIfParticipantValid
        (assignedTo_Form (fst (fst (dispatch now newObject e c)))
           (snd (fst (dispatch now newObject e c)))) \<or>
    e = CreateClick \<and> \<not> checkIfParticipantValid (assignedTo_Form (fst c) (snd c)) \<and>
      assignedToValidity (snd (fst (dispatch now newObject e c))) = Error) \<and>
   (titleValidity (snd c) = Default \<and> \<not> titleSubmitFailed es c \<longrightarrow>
      titleValidity (snd (run es c)) = Default) \<and>
   (assignedToValidity (snd c) = Default \<and> \<not> assigneeSubmitFailed es c \<longrightarrow>
      assignedToValidity (snd (run es c)) = Default)"
  using dispatch_title_step [of now newObject e c] dispatch_assignee_step [of now newObject e c]
    run_title_default [of c es] run_assignee_default [of c es]
  by blast

lemmas example_defs = exampleProps_def exampleOtherProps_def exampleLead_def
  exampleMember_def exampleFilled_def initialState_def assignedTo_Form_def

theorem validity_state_machine_witness:
  "titleValidity (snd (exampleProps, initialState 0)) = Default \<and>
   \<not> titleSubmitFailed exampleRun (exampleProps, initialState 0) \<and>
   assigneeSubmitFailed exampleRun (exampleProps, initialState 0) \<and>
   titleValidity (snd (run exampleRun (exampleProps, initialState 0))) = Default \<and>
   assignedToValidity (snd (run exampleRun (exampleProps, initialState 0))) = Success \<and>
   assignedToValidity (snd (exampleProps, initialState 0)) = Default \<and>
   \<not> assigneeSubmitFailed exampleRun' (exampleProps, initialState 0) \<and>
   titleSubmitFailed exampleRun' (exampleProps, initialState 0) \<and>
   assignedToValidity (snd (run exampleRun' (exampleProps, initialState 0))) = Default \<and>
   titleValidity (snd (run exampleRun' (exampleProps, initialState 0))) = Success \<and>
   assignedToValidity (snd (fst (dispatch 5 False (PropsChange exampleOtherProps)
      (exampleProps, exampleFilled\<lparr>assignedToValidity := Success\<rparr>)))) = Error"
proof -
  have t: "\<not> titleSubmitFailed exampleRun (exampleProps, initialState 0)"
    and a: "\<not> assigneeSubmitFailed exampleRun' (exampleProps, initialState 0)"
    and t': "titleSubmitFailed exampleRun' (exampleProps, initialState 0)"
    and a': "assigneeSubmitFailed exampleRun (exampleProps, initialState 0)"
    by (simp_all add: exampleRun_def exampleRun'_def form_defs example_defs)
  have s: "assignedToValidity (snd (run exampleRun (exampleProps, initialState 0))) = Success"
    and s': "titleValidity (snd (run exampleRun' (exampleProps, initialState 0))) = Success"
    by (simp_all add: exampleRun_def exampleRun'_def form_defs example_defs)
  have d: "titleValidity (snd (exampleProps, initialState 0)) = Default"
    "assignedToValidity (snd (exampleProps, initialState 0)) = Default"
    by (simp_all add: initialState_def)
  have v: "snd (fst (dispatch 5 False (PropsChange exampleOtherProps)
      (exampleProps, exampleFilled\<lparr>assignedToValidity := Success\<rparr>))) =
     exampleFilled\<lparr>assignedToValidity := Error\<rparr>"
    by (simp add: form_defs example_defs)
  show ?thesis
    using t a t' a' s s' d v
      validity_state_machine [where e = "PropsChange exampleOtherProps" and now = 5
        and newObject = False
        and c = "(exampleProps, exampleFilled\<lparr>assignedToValidity := Success\<rparr>)"
        and es = exampleRun]
      validity_state_machine [where e = CreateClick and now = 0 and newObject = False
        and c = "(exampleProps, initialState 0)" and es = exampleRun]
      validity_state_machine [where e = CreateClick and now = 0 and newObject = False
        and c = "(exampleProps, initialState 0)" and es = exampleRun']
    by simp
qed

section \<open>Properties of the question and answer form\<close>

text \<open>
  Claim C9. Selecting a severity and changing the markdown text each call
  \<^verbatim>\<open>onAnswerChange\<close> once, with a whole answer: the edited field has the new value, and
  the other of the two fields and every further field of the answer are those of the
  current answer.
\<close>

theorem onAnswerChange_full_answer:
  "(\<exists>a'. onSeveritySelected answer sev = [a'] \<and> severity a' = sev \<and>
         text_Answer a' = text_Answer answer \<and> Answer.more a' = Answer.more answer) \<and>
   (\<exists>a'. onMarkdownChange answer txt = [a'] \<and> text_Answer a' = txt \<and>
         severity a' = severity answer \<and> Answer.more a' = Answer.more answer)"
  by (simp add: onSeveritySelected_def onMarkdownChange_def)

section \<open>Properties of the cache update\<close>

text \<open>What the modifier of the source does to the stored fields and to the entities.\<close>

lemma participants_modifier_Some:
  "participants_modifier created c (Some refs) =
     (c\<lparr>entities := (entities c)(id_Participant created \<mapsto> created)\<rparr>,
      refs @ [Reference (id_Participant created)])"
  by (simp add: participants_modifier_def writeFragment_def)

lemma modifyFields_participants_modifier:
  "modifyFields (participants_modifier created) stored c =
     ((if stored = [] then c
       else c\<lparr>entities := (entities c)(id_Participant created \<mapsto> created)\<rparr>),
      map (\<lambda>(args, refs). (args, refs @ [Reference (id_Participant created)])) stored)"
proof (induction stored arbitrary: c)
  case Nil
  then show ?case by simp
next
  case (Cons f stored)
  obtain args refs where f: "f = (args, refs)" by (cases f)
  show ?case
    by (simp add: f Cons.IH participants_modifier_Some)
qed







text \<open>
  Outside the first hypothesis the model behaves otherwise. With a list stored for
  another evaluation only, the modifier appends to that list and the watched query goes
  to the network. With no list stored at all, the modifier is never called, the store
  keeps only the client's own write, and the watched query goes to the network.
\<close>

lemma mutationSucceeded_not_cached:
  "mutationSucceeded createParticipantOptions ''e2'' exampleCache exampleLead
   = (\<lparr> entities = [''Participant:p2'' \<mapsto> exampleMember, ''Participant:p1'' \<mapsto> exampleLead,
                     ''p1'' \<mapsto> exampleLead],
        participants_Cache = [(''e1'', [Reference ''Participant:p2'', Reference ''p1''])] \<rparr>,
      [GET_PARTICIPANTS ''e2''])"
  by (simp add: mutationSucceeded_def createParticipantOptions_def Let_def update_def
      modify_participants_def modifyFields_participants_modifier writeResult_def
      readParticipants_def dataIdFromObject_def exampleCache_def exampleLead_def)

lemma mutationSucceeded_nothing_cached:
  "mutationSucceeded createParticipantOptions ''e1''
     \<lparr> entities = Map.empty, participants_Cache = [] \<rparr> exampleLead
   = (\<lparr> entities = [''Participant:p1'' \<mapsto> exampleLead], participants_Cache = [] \<rparr>,
      [GET_PARTICIPANTS ''e1''])"
  by (simp add: mutationSucceeded_def createParticipantOptions_def Let_def update_def
      modify_participants_def writeResult_def readParticipants_def dataIdFromObject_def
      exampleLead_def)

end
